theory Spec2Isabelle
  imports Complex_Main "HOL-Library.Multiset"
begin

section \<open>The quiz component of \<^verbatim>\<open>src/artifact-component.tsx\<close>\<close>

text \<open>
  The component \<^verbatim>\<open>UniversityChallengeGame\<close> keeps its whole state in React state
  variables and two refs. The model puts them in one record, turns every handler into a
  function from the state of the render the handler closes over to the state of the next
  render, and keeps the conditions under which the JSX offers a control as a separate
  predicate. The readings of \<^verbatim>\<open>Date.now()\<close>, \<^verbatim>\<open>new Date()\<close> and
  \<^verbatim>\<open>Math.random()\<close> are inputs of the model.
\<close>

subsection \<open>Data\<close>

text \<open>
  \<^verbatim>\<open>interface Question { question; answer; points }\<close> and the elements
  \<^verbatim>\<open>{ question; answer }\<close> of \<^verbatim>\<open>BonusSet.questions\<close>. The field \<^verbatim>\<open>points\<close> is a
  JavaScript number read from a JSON file; the model takes it as an integer of either sign.
\<close>

record QA =
  question :: string
  answer :: string

record Question = QA +
  points :: int

record BonusSet =
  topic :: string
  questions :: "QA list"

text \<open>
  \<^verbatim>\<open>interface GameStatistics\<close>. Its fields carry the prefix \<open>stat_\<close>, since the component
  state has variables of the same names. The quotient \<^verbatim>\<open>avgBuzzTime\<close> is a JavaScript
  number; the model keeps the exact rational quotient.
\<close>

record GameStatistics =
  stat_id :: int
  stat_date :: string
  stat_avgBuzzTime :: rat
  stat_score :: int
  stat_incorrectBuzzes :: nat
  stat_correctStarters :: nat
  stat_totalStarters :: nat
  stat_correctBonuses :: nat
  stat_totalBonuses :: nat

text \<open>\<^verbatim>\<open>type GameState = 'ready' | 'playing' | 'answer' | 'bonus' | 'session'\<close>\<close>

datatype GameState = Ready | Playing | Answer | Bonus | Session

text \<open>
  The state variables of the component, under their own names, with the ref
  \<^verbatim>\<open>startTime\<close> (\<open>None\<close> is \<^verbatim>\<open>null\<close>) and the value stored under the key
  \<^verbatim>\<open>universityChallenge_stats\<close> of \<^verbatim>\<open>localStorage\<close> (\<open>None\<close>: no such key).
  The ref \<^verbatim>\<open>timerInterval\<close> holds a live interval exactly while \<open>timerRunning\<close> is set: both
  are set in \<^verbatim>\<open>startTimer\<close> and cleared together in \<^verbatim>\<open>handleBuzz\<close> and on expiry.
\<close>

record game =
  starters :: "Question list"
  bonuses :: "BonusSet list"
  gameState :: GameState
  currentQuestion :: nat
  score :: int
  showAnswer :: bool
  currentBonus :: nat
  soundEnabled :: bool
  timerRunning :: bool
  elapsedTime :: int
  buzzTimes :: "int list"
  showBonusAnswer :: bool
  showAllHistory :: bool
  statistics :: "GameStatistics list"
  incorrectBuzzes :: nat
  correctStarters :: nat
  totalStarters :: nat
  correctBonuses :: nat
  totalBonuses :: nat
  currentBonusSet :: "BonusSet option"
  startTime :: "int option"
  localStorage :: "GameStatistics list option"

text \<open>
  The two JSON files \<^verbatim>\<open>@/data/starters.json\<close> and \<^verbatim>\<open>@/data/bonuses.json\<close> are not part
  of the sources; the model takes their contents as a parameter.
\<close>

record bank =
  SAMPLE_STARTERS :: "Question list"
  SAMPLE_BONUSES :: "BonusSet list"

definition STARTER_TIME_LIMIT :: int where
  "STARTER_TIME_LIMIT = 60000"

text \<open>
  What one step reads from its environment: \<open>dateNow\<close> is \<^verbatim>\<open>Date.now()\<close> as the handler
  or the interval callback reads it; \<open>effectIso\<close> and \<open>effectNow\<close> are
  \<^verbatim>\<open>new Date().toISOString()\<close> and \<^verbatim>\<open>Date.now()\<close> as the statistics effect reads them
  after the render that follows.
\<close>

record clock =
  dateNow :: int
  effectIso :: string
  effectNow :: int

subsection \<open>Array helpers\<close>

text \<open>\<^verbatim>\<open>xs[i]\<close>: \<open>None\<close> is \<^verbatim>\<open>undefined\<close>.\<close>

definition at_index :: "'a list \<Rightarrow> nat \<Rightarrow> 'a option" where
  "at_index xs i = (if i < length xs then Some (xs ! i) else None)"

text \<open>\<^verbatim>\<open>xs.filter((_, index) => P(index))\<close>, the indices counted from \<open>i\<close>.\<close>

fun filter_from :: "nat \<Rightarrow> (nat \<Rightarrow> bool) \<Rightarrow> 'a list \<Rightarrow> 'a list" where
  "filter_from i P [] = []"
| "filter_from i P (x # xs) =
     (if P i then x # filter_from (Suc i) P xs else filter_from (Suc i) P xs)"

definition filter_index :: "(nat \<Rightarrow> bool) \<Rightarrow> 'a list \<Rightarrow> 'a list" where
  "filter_index P xs = filter_from 0 P xs"

text \<open>\<^verbatim>\<open>Date.now() - startTime.current\<close>; \<^verbatim>\<open>null\<close> converts to 0.\<close>

definition since_start :: "int \<Rightarrow> int option \<Rightarrow> int" where
  "since_start now st = now - (case st of None \<Rightarrow> 0 | Some t \<Rightarrow> t)"

subsection \<open>Handlers\<close>

text \<open>
  Each handler maps the state of the render it closes over to the state after React has
  applied the updates it queued. Where a handler reads a variable after queuing an update
  of it, it still reads the value of its closure; the definitions keep that. A click is
  rendered before the next event is dispatched. The updates of the interval callback are
  rendered later, so a click can be handled in between, by a handler that closes over the
  render from before the callback; \<open>handleBuzzOn\<close> below is \<^verbatim>\<open>handleBuzz\<close> in that
  position.
\<close>

definition startTimer :: "int \<Rightarrow> game \<Rightarrow> game" where
  "startTimer now s = s\<lparr>startTime := Some now, timerRunning := True, elapsedTime := 0\<rparr>"

text \<open>
  \<^verbatim>\<open>startGame\<close>; \<open>shuffled\<close> is the result of
  \<^verbatim>\<open>[...SAMPLE_STARTERS].sort(() => Math.random() - 0.5)\<close>.
\<close>

definition startGame :: "bank \<Rightarrow> int \<Rightarrow> Question list \<Rightarrow> game \<Rightarrow> game" where
  "startGame b now shuffled s =
     startTimer now
       (s\<lparr>gameState := Playing, score := 0, currentQuestion := 0, showAnswer := False,
          buzzTimes := [], incorrectBuzzes := 0, correctStarters := 0, totalStarters := 0,
          correctBonuses := 0, totalBonuses := 0, starters := shuffled,
          bonuses := SAMPLE_BONUSES b\<rparr>)"

definition handleTimeUp :: "game \<Rightarrow> game" where
  "handleTimeUp s =
     s\<lparr>gameState := Answer, showAnswer := True, totalStarters := totalStarters s + 1\<rparr>"

text \<open>The callback of \<^verbatim>\<open>setInterval\<close> in \<^verbatim>\<open>startTimer\<close>.\<close>

definition intervalTick :: "int \<Rightarrow> game \<Rightarrow> game" where
  "intervalTick now s =
     (let elapsed = since_start now (startTime s);
          s1 = s\<lparr>elapsedTime := elapsed\<rparr>
      in if elapsed \<ge> STARTER_TIME_LIMIT
         then handleTimeUp (s1\<lparr>timerRunning := False\<rparr>)
         else s1)"

text \<open>
  \<^verbatim>\<open>handleBuzz\<close> as the handler of the render \<open>closure\<close>, run on the state \<open>s\<close> that the
  updates queued so far lead to. The guard reads \<^verbatim>\<open>gameState\<close> of the closure. The
  updates of \<^verbatim>\<open>buzzTimes\<close> and \<^verbatim>\<open>totalStarters\<close> are functions of the previous value,
  the others are constants, and \<^verbatim>\<open>startTime\<close> is a ref, read as it is at the call; so they
  all act on \<open>s\<close>. Playing the sound leaves the state alone.
\<close>

definition handleBuzzOn :: "int \<Rightarrow> game \<Rightarrow> game \<Rightarrow> game" where
  "handleBuzzOn now closure s =
     (if gameState closure \<noteq> Playing then s
      else s\<lparr>timerRunning := False,
             buzzTimes := buzzTimes s @ [since_start now (startTime s)],
             showAnswer := True, gameState := Answer,
             totalStarters := totalStarters s + 1\<rparr>)"

text \<open>\<^verbatim>\<open>handleBuzz\<close> with nothing queued: the closure is the current state.\<close>

definition handleBuzz :: "int \<Rightarrow> game \<Rightarrow> game" where
  "handleBuzz now s = handleBuzzOn now s s"

definition handleNextStep :: "game \<Rightarrow> game" where
  "handleNextStep s = s\<lparr>gameState := Session\<rparr>"

definition handleNextQuestion :: "int \<Rightarrow> game \<Rightarrow> game" where
  "handleNextQuestion now s =
     (if length (starters s) > 0
      then startTimer now
             (s\<lparr>currentQuestion := 0, showAnswer := False, showBonusAnswer := False,
                gameState := Playing\<rparr>)
      else s\<lparr>gameState := Ready\<rparr>)"

text \<open>
  \<^verbatim>\<open>handleAnswer\<close>; \<open>randomIndex\<close> is the value of
  \<^verbatim>\<open>Math.floor(Math.random() * bonuses.length)\<close>, read only on the path that draws a
  bonus set. The call of \<^verbatim>\<open>handleNextQuestion\<close> and the final \<^verbatim>\<open>setStarters\<close> both
  read \<^verbatim>\<open>starters\<close> and \<^verbatim>\<open>currentQuestion\<close> as the handler's closure has them, that is
  before the judged question is removed.
\<close>

definition handleAnswer :: "int \<Rightarrow> bool \<Rightarrow> nat \<Rightarrow> game \<Rightarrow> game" where
  "handleAnswer now correct randomIndex s =
     (case at_index (starters s) (currentQuestion s) of
        None \<Rightarrow> s
      | Some q \<Rightarrow>
          (let s1 =
             (if correct then
                (let s2 = s\<lparr>score := score s + points q,
                            correctStarters := correctStarters s + 1\<rparr>
                 in if length (bonuses s) > 0 then
                      s2\<lparr>bonuses := filter_index (\<lambda>index. index \<noteq> randomIndex) (bonuses s),
                         currentBonusSet := at_index (bonuses s) randomIndex,
                         gameState := Bonus, currentBonus := 0, showBonusAnswer := False\<rparr>
                    else handleNextQuestion now s2)
              else handleNextStep (s\<lparr>incorrectBuzzes := incorrectBuzzes s + 1\<rparr>))
           in s1\<lparr>starters :=
                   filter_index (\<lambda>index. index \<noteq> currentQuestion s) (starters s)\<rparr>))"

definition handleBonusAnswer :: "bool \<Rightarrow> game \<Rightarrow> game" where
  "handleBonusAnswer correct s =
     (if length (bonuses s) = 0 then s
      else
        (let s1 = (if correct
                   then s\<lparr>score := score s + 5, correctBonuses := correctBonuses s + 1\<rparr>
                   else s);
             s2 = s1\<lparr>totalBonuses := totalBonuses s + 1\<rparr>
         in if currentBonus s < 2
            then s2\<lparr>currentBonus := currentBonus s + 1, showBonusAnswer := False\<rparr>
            else handleNextStep s2))"

definition endSession :: "game \<Rightarrow> game" where
  "endSession s = s\<lparr>gameState := Ready\<rparr>"

definition toggleSound :: "game \<Rightarrow> game" where
  "toggleSound s = s\<lparr>soundEnabled := \<not> soundEnabled s\<rparr>"

text \<open>\<^verbatim>\<open>buzzTimes.reduce((a, b) => a + b, 0) / buzzTimes.length\<close>, zero on no buzz.\<close>

definition getAverageBuzzTime :: "int list \<Rightarrow> rat" where
  "getAverageBuzzTime bts =
     (if length bts = 0 then 0
      else of_int (foldl (\<lambda>a b. a + b) 0 bts) / of_nat (length bts))"

text \<open>
  The effect with the dependency list \<^verbatim>\<open>[gameState]\<close>: it runs after a render whose
  \<^verbatim>\<open>gameState\<close> differs from that of the render before (\<open>prev\<close>), and reads the variables
  of the new render.
\<close>

definition statsEffect :: "clock \<Rightarrow> game \<Rightarrow> game \<Rightarrow> game" where
  "statsEffect clk prev s =
     (if gameState s \<noteq> gameState prev \<and> gameState s = Ready \<and> length (buzzTimes s) > 0
      then
        (let newStat = \<lparr>stat_id = effectNow clk, stat_date = effectIso clk,
                        stat_avgBuzzTime = getAverageBuzzTime (buzzTimes s),
                        stat_score = score s,
                        stat_incorrectBuzzes = incorrectBuzzes s,
                        stat_correctStarters = correctStarters s,
                        stat_totalStarters = totalStarters s,
                        stat_correctBonuses = correctBonuses s,
                        stat_totalBonuses = totalBonuses s\<rparr>;
             updatedStats = statistics s @ [newStat]
         in s\<lparr>statistics := updatedStats, localStorage := Some updatedStats\<rparr>)
      else s)"

subsection \<open>The controls the component offers\<close>

text \<open>
  The render dereferences \<^verbatim>\<open>starters[currentQuestion]\<close> in the states
  \<^verbatim>\<open>'playing'\<close> and \<^verbatim>\<open>'answer'\<close>, and \<^verbatim>\<open>currentBonusSet.questions[currentBonus]\<close>
  in the state \<^verbatim>\<open>'bonus'\<close> when \<^verbatim>\<open>currentBonusSet\<close> is set. On \<^verbatim>\<open>undefined\<close> the
  render throws a TypeError; React then unmounts the component, the cleanup of the first
  effect clears the interval, and no handler runs any more.
\<close>

definition renders :: "game \<Rightarrow> bool" where
  "renders s =
     (case gameState s of
        Playing \<Rightarrow> currentQuestion s < length (starters s)
      | Answer \<Rightarrow> currentQuestion s < length (starters s)
      | Bonus \<Rightarrow>
          (case currentBonusSet s of
             None \<Rightarrow> True
           | Some bs \<Rightarrow> currentBonus s < length (questions bs))
      | Ready \<Rightarrow> True
      | Session \<Rightarrow> True)"

text \<open>
  What can happen to the component: a click on one of the buttons of the JSX, or a run of
  the interval callback. \<open>ClickStart\<close> carries the shuffled copy of the starters and
  \<open>ClickCorrect\<close> the random index, as drawn inside the handlers.

  \<open>TickThenBuzz\<close> is a run of the interval callback followed by a click on BUZZ that is
  dispatched before React has rendered the updates of the callback; it carries
  \<^verbatim>\<open>Date.now()\<close> as \<^verbatim>\<open>handleBuzz\<close> reads it. The render the click lands on is the one
  of a presentation, whose other button toggles the sound; that handler reads nothing the
  callback updates, so a click on it in the same position is a tick followed by the click.
\<close>

datatype event =
    ClickStart "Question list"
  | IntervalTick
  | ClickBuzz
  | TickThenBuzz int
  | ClickCorrect nat
  | ClickIncorrect
  | ClickShowAnswer
  | ClickBonusAnswer bool
  | ClickContinue
  | ClickEndSession
  | ClickSound
  | ClickHistory

text \<open>
  \<open>enabled b e s\<close>: the render of \<open>s\<close> succeeded and shows the control of \<open>e\<close> (for the
  interval callback: the interval is live), and the random value \<open>e\<close> carries is one the
  handler can draw in \<open>s\<close>: the sort returns a rearrangement of the starters, and
  \<^verbatim>\<open>Math.floor(Math.random() * n)\<close> is below \<open>n\<close>.
\<close>

definition enabled :: "bank \<Rightarrow> event \<Rightarrow> game \<Rightarrow> bool" where
  "enabled b e s =
     (renders s \<and>
      (case e of
         ClickStart shuffled \<Rightarrow>
           gameState s = Ready \<and> mset shuffled = mset (SAMPLE_STARTERS b)
       | IntervalTick \<Rightarrow> timerRunning s
       | ClickBuzz \<Rightarrow> gameState s = Playing
       | TickThenBuzz buzzNow \<Rightarrow> timerRunning s \<and> gameState s = Playing
       | ClickCorrect randomIndex \<Rightarrow>
           gameState s = Answer \<and> (bonuses s = [] \<or> randomIndex < length (bonuses s))
       | ClickIncorrect \<Rightarrow> gameState s = Answer
       | ClickShowAnswer \<Rightarrow>
           gameState s = Bonus \<and> currentBonusSet s \<noteq> None \<and> \<not> showBonusAnswer s
       | ClickBonusAnswer correct \<Rightarrow>
           gameState s = Bonus \<and> currentBonusSet s \<noteq> None \<and> showBonusAnswer s
       | ClickContinue \<Rightarrow> gameState s = Session
       | ClickEndSession \<Rightarrow> gameState s = Session
       | ClickSound \<Rightarrow> True
       | ClickHistory \<Rightarrow> gameState s = Ready \<and> statistics s \<noteq> []))"

text \<open>The handler each control is wired to. For \<open>TickThenBuzz\<close> the updates of the
  callback come first in the queues, and \<^verbatim>\<open>handleBuzz\<close> closes over the state before
  them.\<close>

definition perform :: "bank \<Rightarrow> clock \<Rightarrow> event \<Rightarrow> game \<Rightarrow> game" where
  "perform b clk e s =
     (case e of
        ClickStart shuffled \<Rightarrow> startGame b (dateNow clk) shuffled s
      | IntervalTick \<Rightarrow> intervalTick (dateNow clk) s
      | ClickBuzz \<Rightarrow> handleBuzz (dateNow clk) s
      | TickThenBuzz buzzNow \<Rightarrow> handleBuzzOn buzzNow s (intervalTick (dateNow clk) s)
      | ClickCorrect randomIndex \<Rightarrow> handleAnswer (dateNow clk) True randomIndex s
      | ClickIncorrect \<Rightarrow> handleAnswer (dateNow clk) False 0 s
      | ClickShowAnswer \<Rightarrow> s\<lparr>showBonusAnswer := True\<rparr>
      | ClickBonusAnswer correct \<Rightarrow> handleBonusAnswer correct s
      | ClickContinue \<Rightarrow> handleNextQuestion (dateNow clk) s
      | ClickEndSession \<Rightarrow> endSession s
      | ClickSound \<Rightarrow> toggleSound s
      | ClickHistory \<Rightarrow> s\<lparr>showAllHistory := \<not> showAllHistory s\<rparr>)"

text \<open>
  One step of the component, from one render to the next: the handlers that run on the
  render (one, or the two of \<open>TickThenBuzz\<close>), the render of their updates, the effect. An
  event whose control is not there leaves the state as it is.
\<close>

definition step :: "bank \<Rightarrow> clock \<Rightarrow> event \<Rightarrow> game \<Rightarrow> game" where
  "step b clk e s = (if enabled b e s then statsEffect clk s (perform b clk e s) else s)"

fun run :: "bank \<Rightarrow> (clock \<times> event) list \<Rightarrow> game \<Rightarrow> game" where
  "run b [] s = s"
| "run b (ce # tr) s = run b tr (step b (fst ce) (snd ce) s)"

text \<open>
  The state of the first render; \<open>saved\<close> is what \<^verbatim>\<open>localStorage\<close> holds under the key
  of the statistics.
\<close>

definition initial :: "bank \<Rightarrow> GameStatistics list option \<Rightarrow> game" where
  "initial b saved =
     \<lparr>starters = SAMPLE_STARTERS b, bonuses = SAMPLE_BONUSES b, gameState = Ready,
      currentQuestion = 0, score = 0, showAnswer = False, currentBonus = 0,
      soundEnabled = True, timerRunning = False, elapsedTime = 0, buzzTimes = [],
      showBonusAnswer = False, showAllHistory = False,
      statistics = (case saved of None \<Rightarrow> [] | Some stats \<Rightarrow> stats),
      incorrectBuzzes = 0, correctStarters = 0, totalStarters = 0, correctBonuses = 0,
      totalBonuses = 0, currentBonusSet = None, startTime = None, localStorage = saved\<rparr>"

subsection \<open>Observations on a run\<close>

definition isStart :: "event \<Rightarrow> bool" where
  "isStart e = (case e of ClickStart shuffled \<Rightarrow> True | _ \<Rightarrow> False)"

text \<open>The event ends the presentation of a starter: a buzz, or the tick on which the
  countdown has run out, or a tick and a buzz on one render (which end the one
  presentation on display).\<close>

definition endsPresentation :: "clock \<Rightarrow> event \<Rightarrow> game \<Rightarrow> bool" where
  "endsPresentation clk e s =
     (case e of
        ClickBuzz \<Rightarrow> True
      | TickThenBuzz buzzNow \<Rightarrow> True
      | IntervalTick \<Rightarrow> STARTER_TIME_LIMIT \<le> since_start (dateNow clk) (startTime s)
      | _ \<Rightarrow> False)"

text \<open>The number of presentations completed in the round the run is in, counted on the
  events: a start begins a new round.\<close>

fun cyclesCompleted :: "bank \<Rightarrow> nat \<Rightarrow> (clock \<times> event) list \<Rightarrow> game \<Rightarrow> nat" where
  "cyclesCompleted b n [] s = n"
| "cyclesCompleted b n (ce # tr) s =
     cyclesCompleted b
       (if enabled b (snd ce) s
        then (if isStart (snd ce) then 0
              else if endsPresentation (fst ce) (snd ce) s then n + 1 else n)
        else n)
       tr (step b (fst ce) (snd ce) s)"

text \<open>The bonus set a step selects for presentation: the one on display when the step
  enters the state \<^verbatim>\<open>'bonus'\<close>.\<close>

definition selected :: "game \<Rightarrow> game \<Rightarrow> BonusSet list" where
  "selected s s' =
     (if gameState s' = Bonus \<and> gameState s \<noteq> Bonus
      then (case currentBonusSet s' of None \<Rightarrow> [] | Some bs \<Rightarrow> [bs])
      else [])"

text \<open>The bonus sets selected in the round the run is in, in the order of selection.\<close>

fun drawsOfRound :: "bank \<Rightarrow> BonusSet list \<Rightarrow> (clock \<times> event) list \<Rightarrow> game \<Rightarrow> BonusSet list"
  where
  "drawsOfRound b ds [] s = ds"
| "drawsOfRound b ds (ce # tr) s =
     drawsOfRound b
       (if enabled b (snd ce) s \<and> isStart (snd ce) then []
        else ds @ selected s (step b (fst ce) (snd ce) s))
       tr (step b (fst ce) (snd ce) s)"

subsection \<open>Invariants of the runs\<close>

text \<open>The counters of correct answers stay below the totals; while a starter awaits its
  judgment, its presentation is already counted and its judgment is not.\<close>

definition countersInv :: "game \<Rightarrow> bool" where
  "countersInv s =
     (correctBonuses s \<le> totalBonuses s \<and>
      (if gameState s = Answer then correctStarters s < totalStarters s
       else correctStarters s \<le> totalStarters s))"

text \<open>The interval is live only while a starter is presented.\<close>

definition timerInv :: "game \<Rightarrow> bool" where
  "timerInv s = (timerRunning s \<longrightarrow> gameState s = Playing)"

text \<open>\<open>overlapped e\<close>: the event has a click handled on a render that the interval
  callback has already left behind; \<open>serial tr\<close>: no event of the run is of that kind.\<close>

definition overlapped :: "event \<Rightarrow> bool" where
  "overlapped e = (case e of TickThenBuzz buzzNow \<Rightarrow> True | _ \<Rightarrow> False)"

definition serial :: "(clock \<times> event) list \<Rightarrow> bool" where
  "serial tr = list_all (\<lambda>ce. \<not> overlapped (snd ce)) tr"

text \<open>The presentations counted and the starters left add up to the size of the bank;
  the interval is live only while a starter is presented; the starter presented is the
  first of the pool.\<close>

definition poolInv :: "bank \<Rightarrow> game \<Rightarrow> bool" where
  "poolInv b s =
     (currentQuestion s = 0 \<and>
      (timerRunning s \<longrightarrow> gameState s = Playing) \<and>
      (if gameState s = Answer
       then 0 < length (starters s) \<and>
            totalStarters s + length (starters s) = Suc (length (SAMPLE_STARTERS b))
       else totalStarters s + length (starters s) = length (SAMPLE_STARTERS b)))"

text \<open>Every starter of the pool comes from the bank.\<close>

definition bankedInv :: "bank \<Rightarrow> game \<Rightarrow> bool" where
  "bankedInv b s = (set (starters s) \<subseteq> set (SAMPLE_STARTERS b))"

text \<open>\<open>stuckAs s s'\<close>: \<open>s'\<close> shows the bonus question that \<open>s\<close> shows, with the bonus
  counters and the score of \<open>s\<close>, an empty bonus pool and no live interval.\<close>

definition stuckAs :: "game \<Rightarrow> game \<Rightarrow> bool" where
  "stuckAs s s' =
     (gameState s' = Bonus \<and> bonuses s' = [] \<and> \<not> timerRunning s' \<and>
      totalBonuses s' = totalBonuses s \<and> correctBonuses s' = correctBonuses s \<and>
      currentBonus s' = currentBonus s \<and> currentBonusSet s' = currentBonusSet s \<and>
      score s' = score s)"

text \<open>The entry the statistics effect builds from a state, with the quotient of the
  average written out; meant for states with a buzz on record.\<close>

definition sessionEntry :: "clock \<Rightarrow> game \<Rightarrow> GameStatistics" where
  "sessionEntry clk s =
     \<lparr>stat_id = effectNow clk, stat_date = effectIso clk,
      stat_avgBuzzTime = of_int (sum_list (buzzTimes s)) / of_nat (length (buzzTimes s)),
      stat_score = score s, stat_incorrectBuzzes = incorrectBuzzes s,
      stat_correctStarters = correctStarters s, stat_totalStarters = totalStarters s,
      stat_correctBonuses = correctBonuses s, stat_totalBonuses = totalBonuses s\<rparr>"

subsection \<open>A small bank for the examples\<close>

definition tenPointer :: Question where
  "tenPointer = \<lparr>question = ''Which planet is nearest the Sun?'', answer = ''Mercury'',
                 points = 10\<rparr>"

definition secondStarter :: Question where
  "secondStarter = \<lparr>question = ''Which metal is liquid at room temperature?'',
                    answer = ''Mercury'', points = 10\<rparr>"

definition penaltyStarter :: Question where
  "penaltyStarter = \<lparr>question = ''Which river runs through Cairo?'', answer = ''Nile'',
                     points = - 10\<rparr>"

definition riversBonus :: BonusSet where
  "riversBonus =
     \<lparr>topic = ''Rivers'',
      questions = [\<lparr>question = ''Paris?'', answer = ''Seine''\<rparr>,
                   \<lparr>question = ''Rome?'', answer = ''Tiber''\<rparr>,
                   \<lparr>question = ''Vienna?'', answer = ''Danube''\<rparr>]\<rparr>"

definition moonsBonus :: BonusSet where
  "moonsBonus =
     \<lparr>topic = ''Moons'',
      questions = [\<lparr>question = ''Titan?'', answer = ''Saturn''\<rparr>,
                   \<lparr>question = ''Io?'', answer = ''Jupiter''\<rparr>,
                   \<lparr>question = ''Triton?'', answer = ''Neptune''\<rparr>]\<rparr>"

text \<open>One starter and no bonus set; one starter and one bonus set; two of each; one
  starter of negative value.\<close>

definition bankA :: bank where
  "bankA = \<lparr>SAMPLE_STARTERS = [tenPointer], SAMPLE_BONUSES = []\<rparr>"

definition bankB :: bank where
  "bankB = \<lparr>SAMPLE_STARTERS = [tenPointer], SAMPLE_BONUSES = [riversBonus]\<rparr>"

definition bankC :: bank where
  "bankC = \<lparr>SAMPLE_STARTERS = [tenPointer, secondStarter],
            SAMPLE_BONUSES = [riversBonus, moonsBonus]\<rparr>"

definition bankP :: bank where
  "bankP = \<lparr>SAMPLE_STARTERS = [penaltyStarter], SAMPLE_BONUSES = []\<rparr>"

text \<open>The clock readings of a step taken \<open>t\<close> milliseconds into the example.\<close>

definition at_ms :: "int \<Rightarrow> clock" where
  "at_ms t = \<lparr>dateNow = t, effectIso = ''2024-01-01T00:00:00.000Z'', effectNow = t\<rparr>"

text \<open>Scenario A of the specification: start, buzz after 1.5 s, starter judged correct.\<close>

definition scenarioA :: "(clock \<times> event) list" where
  "scenarioA = [(at_ms 0, ClickStart [tenPointer]), (at_ms 1500, ClickBuzz),
                (at_ms 3000, ClickCorrect 0)]"

text \<open>Scenario B: the same, then three times reveal and judge correct.\<close>

definition scenarioB :: "(clock \<times> event) list" where
  "scenarioB = [(at_ms 0, ClickStart [tenPointer]), (at_ms 1500, ClickBuzz),
                (at_ms 3000, ClickCorrect 0),
                (at_ms 4000, ClickShowAnswer), (at_ms 5000, ClickBonusAnswer True),
                (at_ms 6000, ClickShowAnswer), (at_ms 7000, ClickBonusAnswer True),
                (at_ms 8000, ClickShowAnswer), (at_ms 9000, ClickBonusAnswer True)]"

text \<open>A round on \<open>bankC\<close> that draws both bonus sets: the second of the two first, the
  remaining one after the next starter.\<close>

definition twoDraws :: "(clock \<times> event) list" where
  "twoDraws = [(at_ms 0, ClickStart [secondStarter, tenPointer]), (at_ms 1500, ClickBuzz),
               (at_ms 3000, ClickCorrect 1),
               (at_ms 4000, ClickShowAnswer), (at_ms 5000, ClickBonusAnswer True),
               (at_ms 6000, ClickShowAnswer), (at_ms 7000, ClickBonusAnswer False),
               (at_ms 8000, ClickShowAnswer), (at_ms 9000, ClickBonusAnswer True),
               (at_ms 10000, ClickContinue), (at_ms 11000, ClickBuzz),
               (at_ms 12000, ClickCorrect 0)]"

text \<open>A round on \<open>bankC\<close> up to the first bonus question, its answer not yet revealed.\<close>

definition revealPending :: "(clock \<times> event) list" where
  "revealPending = [(at_ms 0, ClickStart [tenPointer, secondStarter]), (at_ms 1500, ClickBuzz),
                    (at_ms 3000, ClickCorrect 0)]"

text \<open>A round on \<open>bankA\<close> up to the summary after a wrong answer.\<close>

definition missedStarter :: "(clock \<times> event) list" where
  "missedStarter = [(at_ms 0, ClickStart [tenPointer]), (at_ms 1500, ClickBuzz),
                    (at_ms 3000, ClickIncorrect)]"

text \<open>A round on \<open>bankA\<close> up to a buzz; a round up to the first presentation.\<close>

definition buzzedIn :: "(clock \<times> event) list" where
  "buzzedIn = [(at_ms 0, ClickStart [tenPointer]), (at_ms 1500, ClickBuzz)]"

definition justStarted :: "(clock \<times> event) list" where
  "justStarted = [(at_ms 0, ClickStart [tenPointer])]"

text \<open>A round on \<open>bankA\<close> in which BUZZ is clicked 4 ms after the callback has found the
  countdown run out, before the render of \<^verbatim>\<open>'answer'\<close>.\<close>

definition lateBuzz :: "(clock \<times> event) list" where
  "lateBuzz = [(at_ms 0, ClickStart [tenPointer]), (at_ms 60000, TickThenBuzz 60004)]"

text \<open>A round on \<open>bankP\<close> up to a buzz, and on to the correct judgment.\<close>

definition penaltyBuzzed :: "(clock \<times> event) list" where
  "penaltyBuzzed = [(at_ms 0, ClickStart [penaltyStarter]), (at_ms 1500, ClickBuzz)]"

definition penaltyJudged :: "(clock \<times> event) list" where
  "penaltyJudged = penaltyBuzzed @ [(at_ms 3000, ClickCorrect 0)]"

section \<open>Properties\<close>

lemmas handler_defs = startTimer_def startGame_def handleTimeUp_def intervalTick_def
  handleBuzz_def handleBuzzOn_def handleNextStep_def handleNextQuestion_def handleAnswer_def
  handleBonusAnswer_def endSession_def toggleSound_def statsEffect_def

lemmas step_defs = step_def enabled_def perform_def renders_def

lemmas example_defs = tenPointer_def secondStarter_def penaltyStarter_def riversBonus_def
  moonsBonus_def bankA_def bankB_def bankC_def bankP_def at_ms_def

lemmas trace_defs = scenarioA_def scenarioB_def twoDraws_def revealPending_def
  missedStarter_def buzzedIn_def justStarted_def penaltyBuzzed_def penaltyJudged_def
  lateBuzz_def

lemmas eval_defs = step_defs handler_defs initial_def at_index_def filter_index_def
  since_start_def example_defs trace_defs isStart_def selected_def STARTER_TIME_LIMIT_def
  Let_def

subsection \<open>Filtering by index\<close>

lemma set_filter_from: "set (filter_from i P xs) \<subseteq> set xs"
  by (induction xs arbitrary: i) auto

lemma filter_from_all: "(\<And>j. i \<le> j \<Longrightarrow> P j) \<Longrightarrow> filter_from i P xs = xs"
  by (induction xs arbitrary: i) auto

lemma mset_filter_from:
  "i \<le> k \<Longrightarrow> k < i + length xs \<Longrightarrow>
   add_mset (xs ! (k - i)) (mset (filter_from i (\<lambda>j. j \<noteq> k) xs)) = mset xs"
proof (induction xs arbitrary: i)
  case Nil
  then show ?case by simp
next
  case (Cons x xs)
  show ?case
  proof (cases "i = k")
    case True
    then have "filter_from (Suc i) (\<lambda>j. j \<noteq> k) xs = xs"
      by (intro filter_from_all) simp
    with True show ?thesis by simp
  next
    case False
    with Cons.prems have "Suc i \<le> k" "k < Suc i + length xs" by simp_all
    from Cons.IH [OF this] False Cons.prems show ?thesis
      by (simp add: Suc_diff_le)
  qed
qed

lemma mset_filter_index:
  "k < length xs \<Longrightarrow> add_mset (xs ! k) (mset (filter_index (\<lambda>j. j \<noteq> k) xs)) = mset xs"
  using mset_filter_from [of 0 k xs] by (simp add: filter_index_def)

lemma length_filter_index:
  "k < length xs \<Longrightarrow> Suc (length (filter_index (\<lambda>j. j \<noteq> k) xs)) = length xs"
  using mset_filter_index [of k xs] by (metis size_mset size_add_mset)

lemma set_filter_index: "set (filter_index P xs) \<subseteq> set xs"
  by (simp add: filter_index_def set_filter_from)

lemma foldl_plus: "foldl (\<lambda>a b. a + b) (a::int) xs = a + sum_list xs"
  by (induction xs arbitrary: a) auto

lemma step_disabled: "\<not> enabled b e s \<Longrightarrow> step b clk e s = s"
  by (simp add: step_def)

subsection \<open>Correct answers never outnumber the questions asked\<close>

lemma countersInv_step: "countersInv s \<Longrightarrow> countersInv (step b clk e s)"
  by (cases e)
     (auto simp: countersInv_def step_defs handler_defs Let_def at_index_def
        split: option.splits if_splits)

lemma countersInv_run: "countersInv s \<Longrightarrow> countersInv (run b tr s)"
  by (induction tr arbitrary: s) (auto simp: countersInv_step)

lemma countersInv_initial: "countersInv (initial b saved)"
  by (simp add: countersInv_def initial_def)

text \<open>
  C6. In every state the component reaches from its first render, by any sequence of
  clicks and ticks, \<open>correctStarters \<le> totalStarters\<close> and
  \<open>correctBonuses \<le> totalBonuses\<close>.
\<close>

theorem counters_bounded:
  "correctStarters (run b tr (initial b saved)) \<le> totalStarters (run b tr (initial b saved)) \<and>
   correctBonuses (run b tr (initial b saved)) \<le> totalBonuses (run b tr (initial b saved))"
  using countersInv_run [OF countersInv_initial, of b tr b saved]
  by (auto simp: countersInv_def split: if_splits)

subsection \<open>Presentations counted against the pool\<close>

lemma timerInv_step:
  assumes "timerInv s"
  shows "timerInv (step b clk e s)"
proof (cases "enabled b e s")
  case False
  with assms show ?thesis by (simp add: step_def)
next
  case True
  with assms show ?thesis
    by (cases e)
       (auto simp: timerInv_def step_defs handler_defs Let_def at_index_def
          split: option.splits)
qed

lemma timerInv_run: "timerInv s \<Longrightarrow> timerInv (run b tr s)"
  by (induction tr arbitrary: s) (auto simp: timerInv_step)

lemma timerInv_initial: "timerInv (initial b saved)"
  by (simp add: timerInv_def initial_def)

lemma poolInv_step:
  assumes "\<not> overlapped e" and inv: "poolInv b s"
  shows "poolInv b (step b clk e s)"
proof (cases "enabled b e s")
  case False
  with inv show ?thesis by (simp add: step_def)
next
  case True
  show ?thesis
  proof (cases e)
    case (ClickStart sh)
    with True have "length sh = length (SAMPLE_STARTERS b)"
      by (auto simp: enabled_def dest: mset_eq_length)
    with True inv ClickStart show ?thesis
      by (auto simp: poolInv_def step_defs handler_defs)
  next
    case (ClickCorrect r)
    with True inv
    have "Suc (length (filter_index (\<lambda>j. j \<noteq> 0) (starters s))) = length (starters s)"
      by (intro length_filter_index) (auto simp: poolInv_def enabled_def renders_def)
    with True inv ClickCorrect show ?thesis
      by (auto simp: poolInv_def step_defs handler_defs Let_def at_index_def)
  next
    case ClickIncorrect
    with True inv
    have "Suc (length (filter_index (\<lambda>j. j \<noteq> 0) (starters s))) = length (starters s)"
      by (intro length_filter_index) (auto simp: poolInv_def enabled_def renders_def)
    with True inv ClickIncorrect show ?thesis
      by (auto simp: poolInv_def step_defs handler_defs Let_def at_index_def)
  next
    case (TickThenBuzz n)
    with assms(1) show ?thesis by (simp add: overlapped_def)
  qed (use True inv in
        \<open>auto simp: poolInv_def step_defs handler_defs Let_def split: if_splits\<close>)
qed

lemma poolInv_run: "serial tr \<Longrightarrow> poolInv b s \<Longrightarrow> poolInv b (run b tr s)"
  by (induction tr arbitrary: s) (auto simp: serial_def poolInv_step)

lemma poolInv_initial: "poolInv b (initial b saved)"
  by (simp add: poolInv_def initial_def)

lemma totalStarters_step:
  "enabled b e s \<Longrightarrow> \<not> overlapped e \<Longrightarrow>
   totalStarters (step b clk e s) =
     (if isStart e then 0
      else if endsPresentation clk e s then totalStarters s + 1 else totalStarters s)"
  by (cases e)
     (auto simp: step_defs isStart_def endsPresentation_def overlapped_def
        handler_defs Let_def split: option.splits)

lemma cyclesCompleted_run:
  "serial tr \<Longrightarrow> cyclesCompleted b (totalStarters s) tr s = totalStarters (run b tr s)"
proof (induction tr arbitrary: s)
  case Nil
  show ?case by simp
next
  case (Cons ce tr)
  then have ser: "\<not> overlapped (snd ce)" "serial tr"
    by (simp_all add: serial_def)
  show ?case
  proof (cases "enabled b (snd ce) s")
    case True
    with Cons.IH [OF ser(2), of "step b (fst ce) (snd ce) s"] ser(1) show ?thesis
      by (simp add: totalStarters_step)
  next
    case False
    with Cons.IH [OF ser(2), of s] show ?thesis
      by (simp add: step_disabled)
  qed
qed

text \<open>On the runs in which every click is handled on an up-to-date render, \<open>totalStarters\<close>
  is the number of presentations the round has completed and stays within the size of
  the bank. The bound also rests on \<open>renders\<close>: a state \<^verbatim>\<open>'playing'\<close> on an empty pool
  presents nothing, its render fails, and no buzz or tick is handled there.\<close>

lemma serial_totalStarters_counts_cycles:
  assumes "serial tr"
  shows "totalStarters (run b tr (initial b saved)) = cyclesCompleted b 0 tr (initial b saved) \<and>
         totalStarters (run b tr (initial b saved)) \<le> length (SAMPLE_STARTERS b)"
proof
  have "totalStarters (initial b saved) = 0" by (simp add: initial_def)
  with cyclesCompleted_run [OF assms, of b "initial b saved"]
  show "totalStarters (run b tr (initial b saved)) = cyclesCompleted b 0 tr (initial b saved)"
    by simp
next
  from poolInv_run [OF assms poolInv_initial, of b saved]
  show "totalStarters (run b tr (initial b saved)) \<le> length (SAMPLE_STARTERS b)"
    by (auto simp: poolInv_def neq_Nil_conv split: if_splits)
qed

text \<open>
  C7 on a bank of one starter, when BUZZ is clicked after the interval callback has found
  the countdown run out and before React has rendered \<^verbatim>\<open>'answer'\<close>. The callback has
  queued its update of \<^verbatim>\<open>totalStarters\<close>; the guard of \<^verbatim>\<open>handleBuzz\<close> still reads
  \<^verbatim>\<open>'playing'\<close> from its closure, so the handler queues a second one and records a buzz
  time. One presentation has been completed and the bank has one starter, and
  \<open>totalStarters\<close> is 2.
\<close>

theorem late_buzz_counts_presentation_twice:
  "totalStarters (run bankA lateBuzz (initial bankA None)) = 2 \<and>
   cyclesCompleted bankA 0 lateBuzz (initial bankA None) = 1 \<and>
   length (SAMPLE_STARTERS bankA) = 1 \<and>
   gameState (run bankA lateBuzz (initial bankA None)) = Answer \<and>
   buzzTimes (run bankA lateBuzz (initial bankA None)) = [60004]"
  by (simp add: eval_defs endsPresentation_def)

subsection \<open>Bonus sets are drawn without replacement\<close>

lemma draw_step:
  "\<not> (enabled b e s \<and> isStart e) \<Longrightarrow>
   mset (selected s (step b clk e s)) + mset (bonuses (step b clk e s)) = mset (bonuses s)"
proof (cases "enabled b e s")
  case False
  then show ?thesis by (simp add: step_def selected_def)
next
  case True
  assume "\<not> (enabled b e s \<and> isStart e)"
  with True have ns: "\<not> isStart e" by simp
  show ?thesis
  proof (cases e)
    case (ClickCorrect r)
    show ?thesis
    proof (cases "bonuses s = []")
      case True
      with \<open>enabled b e s\<close> ClickCorrect show ?thesis
        by (auto simp: selected_def step_defs handler_defs Let_def at_index_def)
    next
      case False
      with \<open>enabled b e s\<close> ClickCorrect have r: "r < length (bonuses s)"
        by (simp add: enabled_def)
      from mset_filter_index [OF r] r False \<open>enabled b e s\<close> ClickCorrect show ?thesis
        by (auto simp: selected_def step_defs handler_defs Let_def at_index_def)
    qed
  qed (use True ns in
        \<open>auto simp: selected_def isStart_def step_defs handler_defs Let_def at_index_def
           split: if_splits\<close>)
qed

lemma start_step:
  "enabled b e s \<Longrightarrow> isStart e \<Longrightarrow> bonuses (step b clk e s) = SAMPLE_BONUSES b"
  by (cases e) (auto simp: isStart_def step_defs handler_defs)

lemma draws_run:
  "mset ds + mset (bonuses s) = mset (SAMPLE_BONUSES b) \<Longrightarrow>
   mset (drawsOfRound b ds tr s) + mset (bonuses (run b tr s)) = mset (SAMPLE_BONUSES b)"
proof (induction tr arbitrary: ds s)
  case Nil
  then show ?case by simp
next
  case (Cons ce tr)
  show ?case
  proof (cases "enabled b (snd ce) s \<and> isStart (snd ce)")
    case True
    then have "mset [] + mset (bonuses (step b (fst ce) (snd ce) s)) = mset (SAMPLE_BONUSES b)"
      by (simp add: start_step)
    from Cons.IH [OF this] True show ?thesis by simp
  next
    case False
    from draw_step [OF False, of "fst ce"] Cons.prems
    have "mset (ds @ selected s (step b (fst ce) (snd ce) s))
            + mset (bonuses (step b (fst ce) (snd ce) s)) = mset (SAMPLE_BONUSES b)"
      by (simp add: ac_simps)
    from Cons.IH [OF this] False show ?thesis by auto
  qed
qed

text \<open>
  C8. After any sequence of clicks and ticks, the bonus sets selected in the current round
  together with the sets left in the pool are exactly the entries of the bank, each as
  often as the bank has it: a set that is selected leaves the pool, and no entry is
  selected twice in a round. Two entries of the bank are two objects even when their
  contents agree, while the model compares contents; with the entries of the bank taken
  distinct, the sets selected in a round are pairwise distinct and none of them is still in
  the pool.
\<close>

theorem bonus_draws_distinct:
  "mset (drawsOfRound b [] tr (initial b saved)) + mset (bonuses (run b tr (initial b saved)))
     = mset (SAMPLE_BONUSES b) \<and>
   (distinct (SAMPLE_BONUSES b) \<longrightarrow>
      distinct (drawsOfRound b [] tr (initial b saved)) \<and>
      set (drawsOfRound b [] tr (initial b saved)) \<inter> set (bonuses (run b tr (initial b saved)))
        = {})"
proof -
  let ?ds = "drawsOfRound b [] tr (initial b saved)"
  let ?s = "run b tr (initial b saved)"
  have "mset [] + mset (bonuses (initial b saved)) = mset (SAMPLE_BONUSES b)"
    by (simp add: initial_def)
  from draws_run [OF this, of tr]
  have eq: "mset ?ds + mset (bonuses ?s) = mset (SAMPLE_BONUSES b)" .
  then have "mset (?ds @ bonuses ?s) = mset (SAMPLE_BONUSES b)" by simp
  then have "distinct (SAMPLE_BONUSES b) \<longrightarrow> distinct (?ds @ bonuses ?s)"
    by (metis mset_eq_imp_distinct_iff)
  with eq show ?thesis by auto
qed

theorem bonus_draws_distinct_witness:
  "distinct (SAMPLE_BONUSES bankC) \<and>
   drawsOfRound bankC [] twoDraws (initial bankC None) = [moonsBonus, riversBonus] \<and>
   distinct (drawsOfRound bankC [] twoDraws (initial bankC None)) \<and>
   bonuses (run bankC twoDraws (initial bankC None)) = []"
proof -
  have d: "distinct (SAMPLE_BONUSES bankC)"
    by (simp add: example_defs)
  have e: "drawsOfRound bankC [] twoDraws (initial bankC None) = [moonsBonus, riversBonus]"
    by (simp add: eval_defs)
  have p: "bonuses (run bankC twoDraws (initial bankC None)) = []"
    by (simp add: eval_defs)
  from bonus_draws_distinct [of bankC twoDraws None] d e p show ?thesis
    by simp
qed

subsection \<open>The score within a round\<close>

lemma bankedInv_step: "bankedInv b s \<Longrightarrow> bankedInv b (step b clk e s)"
proof (cases "enabled b e s")
  case False
  then show "bankedInv b s \<Longrightarrow> ?thesis" by (simp add: step_def)
next
  case True
  assume inv: "bankedInv b s"
  have sub: "set (filter_index P (starters s)) \<subseteq> set (SAMPLE_STARTERS b)" for P
    using set_filter_index [of P "starters s"] inv by (auto simp: bankedInv_def)
  show ?thesis
  proof (cases e)
    case (ClickStart sh)
    with True have "set sh = set (SAMPLE_STARTERS b)"
      by (auto simp: enabled_def dest: mset_eq_setD)
    with True ClickStart show ?thesis
      by (auto simp: bankedInv_def step_defs handler_defs)
  qed (use True inv sub in
        \<open>auto simp: bankedInv_def step_defs handler_defs Let_def
           split: if_splits option.splits\<close>)
qed

lemma bankedInv_run: "bankedInv b s \<Longrightarrow> bankedInv b (run b tr s)"
  by (induction tr arbitrary: s) (auto simp: bankedInv_step)

lemma bankedInv_initial: "bankedInv b (initial b saved)"
  by (simp add: bankedInv_def initial_def)

lemma score_step:
  "\<forall>q\<in>set (starters s). 0 \<le> points q \<Longrightarrow> \<not> isStart e \<Longrightarrow> score s \<le> score (step b clk e s)"
  by (cases e)
     (auto simp: isStart_def step_defs handler_defs Let_def at_index_def
        split: if_splits option.splits)

text \<open>
  C9, as stated, fails: \<^verbatim>\<open>handleAnswer\<close> adds \<^verbatim>\<open>starters[currentQuestion].points\<close>
  whatever its sign. On a bank whose only starter is worth \<open>- 10\<close>, the score is 0 after
  the buzz and \<open>- 10\<close> after the correct judgment.
\<close>

theorem score_decreases_counterexample:
  "score (run bankP penaltyJudged (initial bankP None))
     < score (run bankP penaltyBuzzed (initial bankP None))"
  by (simp add: eval_defs)

text \<open>
  C9, amended. When no starter of the bank has a negative point value, then in every
  state the component reaches, no click or tick other than the start of a new round
  decreases the score.
\<close>

theorem score_monotone_nonnegative_points:
  assumes "\<forall>q\<in>set (SAMPLE_STARTERS b). 0 \<le> points q" and "\<not> isStart e"
  shows "score (run b tr (initial b saved)) \<le> score (step b clk e (run b tr (initial b saved)))"
proof -
  from bankedInv_run [OF bankedInv_initial, of b tr saved] assms(1)
  have "\<forall>q\<in>set (starters (run b tr (initial b saved))). 0 \<le> points q"
    by (auto simp: bankedInv_def)
  from score_step [OF this assms(2)] show ?thesis .
qed

theorem score_monotone_nonnegative_points_witness:
  "SAMPLE_STARTERS bankA = [tenPointer] \<and> 0 \<le> points tenPointer \<and>
   \<not> isStart (ClickCorrect 0) \<and>
   score (run bankA buzzedIn (initial bankA None)) = 0 \<and>
   score (step bankA (at_ms 3000) (ClickCorrect 0) (run bankA buzzedIn (initial bankA None)))
     = 10"
proof -
  have a: "\<forall>q\<in>set (SAMPLE_STARTERS bankA). 0 \<le> points q"
    by (simp add: example_defs)
  have n: "\<not> isStart (ClickCorrect 0)"
    by (simp add: isStart_def)
  have v: "score (run bankA buzzedIn (initial bankA None)) = 0"
    "score (step bankA (at_ms 3000) (ClickCorrect 0) (run bankA buzzedIn (initial bankA None)))
       = 10"
    by (simp_all add: eval_defs)
  have s: "SAMPLE_STARTERS bankA = [tenPointer]"
    by (simp add: example_defs)
  from score_monotone_nonnegative_points [OF a n, of buzzedIn None "at_ms 3000"] a n v s
  show ?thesis by simp
qed

subsection \<open>Judging a bonus question\<close>

lemma handleBonusAnswer_empty_pool: "bonuses s = [] \<Longrightarrow> handleBonusAnswer correct s = s"
  by (simp add: handleBonusAnswer_def)

lemma stuckAs_step: "stuckAs s s1 \<Longrightarrow> stuckAs s (step b clk e s1)"
  by (cases e) (auto simp: stuckAs_def step_defs handler_defs Let_def)

lemma stuckAs_run: "stuckAs s s1 \<Longrightarrow> stuckAs s (run b tr s1)"
  by (induction tr arbitrary: s1) (auto simp: stuckAs_step)

lemma last_draw_stuck:
  assumes "timerInv s0" and "enabled b (ClickCorrect r) s0" and "length (bonuses s0) = 1"
  shows "stuckAs (step b clk (ClickCorrect r) s0) (step b clk (ClickCorrect r) s0) \<and>
         currentBonusSet (step b clk (ClickCorrect r) s0) = Some (bonuses s0 ! 0) \<and>
         currentBonus (step b clk (ClickCorrect r) s0) = 0 \<and>
         totalBonuses (step b clk (ClickCorrect r) s0) = totalBonuses s0 \<and>
         correctBonuses (step b clk (ClickCorrect r) s0) = correctBonuses s0"
proof -
  from assms(2,3) have r: "r = 0" by (auto simp: enabled_def)
  from assms(3) obtain x where x: "bonuses s0 = [x]"
    by (cases "bonuses s0") auto
  from assms(2) have st: "gameState s0 = Answer" "currentQuestion s0 < length (starters s0)"
    by (auto simp: enabled_def renders_def)
  with assms(1) have nt: "\<not> timerRunning s0"
    by (auto simp: timerInv_def)
  from st nt r x show ?thesis
    by (simp add: stuckAs_def step_defs handler_defs Let_def at_index_def filter_index_def)
qed

text \<open>
  C10. \<^verbatim>\<open>handleBonusAnswer\<close> returns at once, changing nothing, whenever the remaining
  bonus pool is empty. In particular, when a run reaches a state \<open>s0\<close> in which a starter
  awaits its judgment and one bonus set is left, the correct judgment draws that set
  and shows its first question (state \<open>s1\<close>); from there on, whatever is clicked, the
  component stays in the state \<^verbatim>\<open>'bonus'\<close> on that first question, and \<open>totalBonuses\<close>,
  \<open>correctBonuses\<close> and the score never move: no question of the set is ever judged.
\<close>

theorem judgeBonus_dead_on_empty_pool:
  assumes "s0 = run b tr0 (initial b saved)"
    and "s1 = step b clk (ClickCorrect r) s0"
    and "enabled b (ClickCorrect r) s0"
    and "length (bonuses s0) = 1"
  shows "(bonuses s = [] \<longrightarrow> handleBonusAnswer correct s = s) \<and>
         gameState s1 = Bonus \<and> bonuses s1 = [] \<and>
         currentBonusSet s1 = Some (bonuses s0 ! 0) \<and> currentBonus s1 = 0 \<and>
         gameState (run b tr s1) = Bonus \<and>
         currentBonusSet (run b tr s1) = Some (bonuses s0 ! 0) \<and>
         currentBonus (run b tr s1) = 0 \<and>
         totalBonuses (run b tr s1) = totalBonuses s0 \<and>
         correctBonuses (run b tr s1) = correctBonuses s0 \<and>
         score (run b tr s1) = score s1"
proof -
  from assms(1) have "timerInv s0"
    by (simp add: timerInv_run timerInv_initial)
  from last_draw_stuck [OF this assms(3,4), of clk] assms(2)
  have s1: "stuckAs s1 s1" "currentBonusSet s1 = Some (bonuses s0 ! 0)" "currentBonus s1 = 0"
    "totalBonuses s1 = totalBonuses s0" "correctBonuses s1 = correctBonuses s0"
    by simp_all
  from stuckAs_run [OF s1(1), of b tr] s1 show ?thesis
    by (simp add: stuckAs_def handleBonusAnswer_empty_pool)
qed

theorem judgeBonus_dead_on_empty_pool_witness:
  "enabled bankB (ClickCorrect 0) (run bankB buzzedIn (initial bankB None)) \<and>
   length (bonuses (run bankB buzzedIn (initial bankB None))) = 1 \<and>
   gameState
     (run bankB [(at_ms 4000, ClickShowAnswer), (at_ms 5000, ClickBonusAnswer True)]
        (step bankB (at_ms 3000) (ClickCorrect 0) (run bankB buzzedIn (initial bankB None))))
     = Bonus \<and>
   totalBonuses
     (run bankB [(at_ms 4000, ClickShowAnswer), (at_ms 5000, ClickBonusAnswer True)]
        (step bankB (at_ms 3000) (ClickCorrect 0) (run bankB buzzedIn (initial bankB None))))
     = 0"
proof -
  let ?s0 = "run bankB buzzedIn (initial bankB None)"
  have en: "enabled bankB (ClickCorrect 0) ?s0"
    by (simp add: eval_defs)
  have len: "length (bonuses ?s0) = 1"
    by (simp add: eval_defs)
  have tot: "totalBonuses ?s0 = 0"
    by (simp add: eval_defs)
  from judgeBonus_dead_on_empty_pool
         [where tr = "[(at_ms 4000, ClickShowAnswer), (at_ms 5000, ClickBonusAnswer True)]"
            and clk = "at_ms 3000", OF refl refl en len]
       en len tot
  show ?thesis by simp
qed

text \<open>
  C3. The buttons that judge a bonus question stand under the condition
  \<^verbatim>\<open>showBonusAnswer &&\<close> of the JSX, and nothing else calls \<^verbatim>\<open>handleBonusAnswer\<close>. In
  the state \<^verbatim>\<open>'bonus'\<close>, a judgment of either kind that comes before the answer of the
  current question has been revealed changes nothing at all: the state after it is the
  state before it, still \<^verbatim>\<open>'bonus'\<close>, with the same counters, score and question.
\<close>

theorem judgeBonus_before_reveal_rejected:
  assumes "gameState s = Bonus" and "\<not> showBonusAnswer s"
  shows "step b clk (ClickBonusAnswer correct) s = s \<and>
         gameState (step b clk (ClickBonusAnswer correct) s) = Bonus"
  using assms by (simp add: step_def enabled_def)

theorem judgeBonus_before_reveal_rejected_witness:
  "gameState (run bankC revealPending (initial bankC None)) = Bonus \<and>
   \<not> showBonusAnswer (run bankC revealPending (initial bankC None)) \<and>
   step bankC (at_ms 4000) (ClickBonusAnswer True) (run bankC revealPending (initial bankC None))
     = run bankC revealPending (initial bankC None) \<and>
   totalBonuses (step bankC (at_ms 4000) (ClickBonusAnswer True)
      (run bankC revealPending (initial bankC None))) = 0"
proof -
  have b: "gameState (run bankC revealPending (initial bankC None)) = Bonus"
    by (simp add: eval_defs)
  have n: "\<not> showBonusAnswer (run bankC revealPending (initial bankC None))"
    by (simp add: eval_defs)
  have z: "totalBonuses (run bankC revealPending (initial bankC None)) = 0"
    by (simp add: eval_defs)
  from judgeBonus_before_reveal_rejected
         [where b = bankC and clk = "at_ms 4000" and correct = True, OF b n] b n z
  show ?thesis by simp
qed

subsection \<open>The statistics of a round\<close>

lemma getAverageBuzzTime_mean:
  "bts \<noteq> [] \<Longrightarrow> getAverageBuzzTime bts = of_int (sum_list bts) / of_nat (length bts)"
  by (simp add: getAverageBuzzTime_def foldl_plus)

lemma statistics_step:
  "statistics (step b clk e s) =
     (if gameState s \<noteq> Ready \<and> gameState (step b clk e s) = Ready \<and> buzzTimes s \<noteq> []
      then statistics s @ [sessionEntry clk s] else statistics s) \<and>
   localStorage (step b clk e s) =
     (if gameState s \<noteq> Ready \<and> gameState (step b clk e s) = Ready \<and> buzzTimes s \<noteq> []
      then Some (statistics s @ [sessionEntry clk s]) else localStorage s)"
  by (cases e)
     (auto simp: sessionEntry_def getAverageBuzzTime_mean step_defs handler_defs Let_def
        at_index_def split: option.splits)

text \<open>
  C4. Let a step take the component from a state other than \<^verbatim>\<open>'ready'\<close> into
  \<^verbatim>\<open>'ready'\<close>. If the round has a buzz on record, the step appends exactly one entry to
  the statistics and stores the extended list in \<^verbatim>\<open>localStorage\<close>; the entry carries the
  score and the five counters of the round, and as average the sum of the buzz times
  divided by their number (the model keeps the exact quotient where JavaScript rounds it to
  a double). If the round has no buzz on record, the statistics and the stored list stay as
  they are, and the average of no buzz times is zero.
\<close>

theorem stats_appended_on_entering_ready:
  assumes "gameState s \<noteq> Ready" and "gameState (step b clk e s) = Ready"
  shows "(buzzTimes s \<noteq> [] \<longrightarrow>
            statistics (step b clk e s) =
              statistics s @
              [\<lparr>stat_id = effectNow clk, stat_date = effectIso clk,
                stat_avgBuzzTime =
                  of_int (sum_list (buzzTimes s)) / of_nat (length (buzzTimes s)),
                stat_score = score s, stat_incorrectBuzzes = incorrectBuzzes s,
                stat_correctStarters = correctStarters s,
                stat_totalStarters = totalStarters s,
                stat_correctBonuses = correctBonuses s,
                stat_totalBonuses = totalBonuses s\<rparr>] \<and>
            localStorage (step b clk e s) = Some (statistics (step b clk e s))) \<and>
         (buzzTimes s = [] \<longrightarrow>
            statistics (step b clk e s) = statistics s \<and>
            localStorage (step b clk e s) = localStorage s) \<and>
         getAverageBuzzTime [] = 0"
  using statistics_step [of b clk e s] assms
  by (simp add: sessionEntry_def getAverageBuzzTime_def)

theorem stats_appended_on_entering_ready_witness:
  "gameState (run bankA missedStarter (initial bankA None)) \<noteq> Ready \<and>
   gameState (step bankA (at_ms 4000) ClickEndSession
      (run bankA missedStarter (initial bankA None))) = Ready \<and>
   buzzTimes (run bankA missedStarter (initial bankA None)) = [1500] \<and>
   statistics (step bankA (at_ms 4000) ClickEndSession
      (run bankA missedStarter (initial bankA None))) =
     [\<lparr>stat_id = 4000, stat_date = ''2024-01-01T00:00:00.000Z'', stat_avgBuzzTime = 1500,
       stat_score = 0, stat_incorrectBuzzes = 1, stat_correctStarters = 0,
       stat_totalStarters = 1, stat_correctBonuses = 0, stat_totalBonuses = 0\<rparr>]"
proof -
  let ?s = "run bankA missedStarter (initial bankA None)"
  have a: "gameState ?s \<noteq> Ready"
    by (simp add: eval_defs)
  have b: "gameState (step bankA (at_ms 4000) ClickEndSession ?s) = Ready"
    by (simp add: eval_defs)
  have c: "buzzTimes ?s = [1500] \<and> statistics ?s = [] \<and> score ?s = 0 \<and>
           incorrectBuzzes ?s = 1 \<and> correctStarters ?s = 0 \<and> totalStarters ?s = 1 \<and>
           correctBonuses ?s = 0 \<and> totalBonuses ?s = 0"
    by (simp add: eval_defs)
  from stats_appended_on_entering_ready [OF a b] a b c show ?thesis
    by (simp add: at_ms_def)
qed

subsection \<open>A starter that nobody buzzes on\<close>

text \<open>
  C5. While a starter is presented (state \<^verbatim>\<open>'playing'\<close>, interval live, the question
  on display), the tick on which 60000 ms have passed since the start of the countdown
  takes the component to \<^verbatim>\<open>'answer'\<close>, adds one to \<open>totalStarters\<close> and records no
  buzz time; judging the starter incorrect then leads to \<^verbatim>\<open>'session'\<close> with
  \<open>incorrectBuzzes\<close> one higher, the buzz times still untouched.
\<close>

theorem timeout_then_incorrect:
  assumes "gameState s = Playing" and "timerRunning s"
    and "currentQuestion s < length (starters s)"
    and "STARTER_TIME_LIMIT \<le> since_start (dateNow clk) (startTime s)"
  shows "gameState (step b clk IntervalTick s) = Answer \<and>
         totalStarters (step b clk IntervalTick s) = totalStarters s + 1 \<and>
         buzzTimes (step b clk IntervalTick s) = buzzTimes s \<and>
         gameState (step b clk' ClickIncorrect (step b clk IntervalTick s)) = Session \<and>
         incorrectBuzzes (step b clk' ClickIncorrect (step b clk IntervalTick s))
           = incorrectBuzzes s + 1 \<and>
         buzzTimes (step b clk' ClickIncorrect (step b clk IntervalTick s)) = buzzTimes s"
  using assms
  by (simp add: step_defs handler_defs Let_def at_index_def)

theorem timeout_then_incorrect_witness:
  "gameState (run bankA justStarted (initial bankA None)) = Playing \<and>
   STARTER_TIME_LIMIT \<le> since_start (dateNow (at_ms 60000))
      (startTime (run bankA justStarted (initial bankA None))) \<and>
   gameState (step bankA (at_ms 60000) IntervalTick
      (run bankA justStarted (initial bankA None))) = Answer \<and>
   buzzTimes (step bankA (at_ms 60000) IntervalTick
      (run bankA justStarted (initial bankA None))) = [] \<and>
   incorrectBuzzes (step bankA (at_ms 61000) ClickIncorrect
      (step bankA (at_ms 60000) IntervalTick
         (run bankA justStarted (initial bankA None)))) = 1"
proof -
  let ?s = "run bankA justStarted (initial bankA None)"
  have a: "gameState ?s = Playing" "timerRunning ?s" "currentQuestion ?s < length (starters ?s)"
    "STARTER_TIME_LIMIT \<le> since_start (dateNow (at_ms 60000)) (startTime ?s)"
    "buzzTimes ?s = []" "incorrectBuzzes ?s = 0"
    by (simp_all add: eval_defs)
  from timeout_then_incorrect [OF a(1-4), of bankA "at_ms 61000"] a show ?thesis
    by simp
qed

subsection \<open>The two scenarios that end a round on the last starter\<close>

text \<open>
  C1 at one starter and one bonus set (scenario B). The correct judgment of the starter
  draws the only bonus set and empties the pool; from then on \<^verbatim>\<open>handleBonusAnswer\<close>
  returns at its first line, which tests the remaining pool and not the active set. After
  three rounds of reveal and judge the component is still in \<^verbatim>\<open>'bonus'\<close> on the first
  question, the score is the value of the starter, and both bonus counters are 0.
\<close>

theorem scenarioB_stuck_in_bonus:
  "gameState (run bankB scenarioB (initial bankB None)) = Bonus \<and>
   score (run bankB scenarioB (initial bankB None)) = points tenPointer \<and>
   correctBonuses (run bankB scenarioB (initial bankB None)) = 0 \<and>
   totalBonuses (run bankB scenarioB (initial bankB None)) = 0 \<and>
   currentBonus (run bankB scenarioB (initial bankB None)) = 0 \<and>
   currentBonusSet (run bankB scenarioB (initial bankB None)) = Some riversBonus \<and>
   bonuses (run bankB scenarioB (initial bankB None)) = []"
  by (simp add: eval_defs)

text \<open>
  C2 at one starter and no bonus set (scenario A). \<^verbatim>\<open>handleAnswer\<close> calls
  \<^verbatim>\<open>handleNextQuestion\<close> before it removes the judged starter, so the test
  \<^verbatim>\<open>starters.length > 0\<close> still sees that starter: the component goes to \<^verbatim>\<open>'playing'\<close>
  with an empty pool, its render fails on \<^verbatim>\<open>starters[0].question\<close>, and the statistics
  get no entry.
\<close>

theorem scenarioA_presents_empty_pool:
  "gameState (run bankA scenarioA (initial bankA None)) = Playing \<and>
   starters (run bankA scenarioA (initial bankA None)) = [] \<and>
   \<not> renders (run bankA scenarioA (initial bankA None)) \<and>
   correctStarters (run bankA scenarioA (initial bankA None)) = 1 \<and>
   totalStarters (run bankA scenarioA (initial bankA None)) = 1 \<and>
   score (run bankA scenarioA (initial bankA None)) = points tenPointer \<and>
   statistics (run bankA scenarioA (initial bankA None)) = []"
  by (simp add: eval_defs)

end
